theory Spec2Isabelle
  imports Complex_Main "HOL-Library.Word"
begin

section \<open>Pair HMM scoring (pair\_hmm.cpp)\<close>

text \<open>
  The scorer takes two \<open>std::string\<close>s and two \<open>std::vector<std::uint8_t>\<close>s.  Strings
  are \<open>string\<close>, byte vectors are lists of 8-bit words, and \<open>std::size_t\<close> values that are
  sizes of, or offsets into, these containers are \<open>nat\<close>: the sum of an offset into a
  container and the size of another is below \<open>2^64\<close>.  Where an \<open>int\<close> enters such a sum
  (in \<open>align\<close>), the narrowing cast and the wrap-around of the sum are written out.  The
  result is a \<open>double\<close>; the values the code returns are read as the real numbers they
  denote (\<open>std::numeric_limits<double>::lowest()\<close> is \<open>-(2^53 - 1) * 2^971\<close>, the table
  entry for \<open>i\<close> is the product \<open>-ln_10_div_10 * i\<close>; the rounding of that product to a
  double is not part of the model).  The \<open>assert\<close>s of the source are a branch of the
  model.
\<close>

type_synonym u8 = "8 word"

text \<open>
  Modelled from the spec: the struct \<open>Model\<close> (pair\_hmm.hpp is not among the sources).
  The fields are the ones \<open>align\<close> reads; their types are the data model's
  \<open>{gap_extend_penalty: u8, insertion_bias: u8, flank_clear: bool}\<close>.
\<close>

record Model =
  gapextend :: u8
  nucprior :: u8
  flank_clear :: bool

datatype error = AssertionFailure

definition ln_10_div_10 :: real where
  "ln_10_div_10 = 0.23025850929940458"

definition lowest :: real where
  "lowest = - ((2 ^ 53 - 1) * 2 ^ 971)"

definition NUM_QUALITIES :: nat where
  "NUM_QUALITIES = 255 - 0 + 1"

definition make_phred_to_ln_prob_lookup :: "nat \<Rightarrow> real list" where
  "make_phred_to_ln_prob_lookup N = map (\<lambda>i. - ln_10_div_10 * real i) [0..<N]"

definition phred_to_ln_probability :: "u8 \<Rightarrow> real" where
  "phred_to_ln_probability q = make_phred_to_ln_prob_lookup NUM_QUALITIES ! unat q"

text \<open>
  \<open>std::mismatch(first1, last1, first2)\<close>: the index of the first position at which the two
  ranges differ, the length of the first range when they do not.  The second range is read
  only as far as the first one reaches.
\<close>

fun mismatch :: "'a list \<Rightarrow> 'a list \<Rightarrow> nat" where
  "mismatch (x # xs) (y # ys) = (if x = y then Suc (mismatch xs ys) else 0)"
| "mismatch _ _ = 0"

text \<open>\<open>std::inner_product\<close> with \<open>plus\<close> and \<open>not_equal_to\<close>, started at 0.\<close>

fun count_mismatches :: "'a list \<Rightarrow> 'a list \<Rightarrow> nat" where
  "count_mismatches (x # xs) (y # ys) = count_mismatches xs ys + (if x \<noteq> y then 1 else 0)"
| "count_mismatches _ _ = 0"

text \<open>\<open>std::equal(first1, last1, first2)\<close>, under the name \<open>equal_seq\<close>.\<close>

fun equal_seq :: "'a list \<Rightarrow> 'a list \<Rightarrow> bool" where
  "equal_seq [] _ = True"
| "equal_seq (x # xs) (y # ys) = (x = y \<and> equal_seq xs ys)"
| "equal_seq (x # xs) [] = False"

text \<open>
  \<open>truncate\<close>, under the name \<open>truncate_qualities\<close>: every quality is cut at the largest
  value of a \<open>char\<close>, 127.
\<close>

definition truncate_qualities :: "u8 list \<Rightarrow> u8 list" where
  "truncate_qualities qualities = map (\<lambda>quality. min quality 127) qualities"

text \<open>
  \<open>static_cast<int>\<close> of an integer value (two's complement, 32 bits), and the conversion
  of an \<open>int\<close> operand to \<open>std::size_t\<close> (64 bits) that \<open>offset_hint + truth_alignment_size\<close>
  performs.
\<close>

definition static_cast_int :: "int \<Rightarrow> int" where
  "static_cast_int i = (i + 2 ^ 31) mod 2 ^ 32 - 2 ^ 31"

definition to_size_t :: "int \<Rightarrow> nat" where
  "to_size_t i = nat (i mod 2 ^ 64)"

text \<open>
  The two overloads of \<open>fastAlignmentRoutine\<close> and \<open>calculateFlankScore\<close> are declared in
  align.h and banded\_simd\_viterbi.hpp, which are not among the sources; \<open>align\<close> takes
  them as parameters.  A pointer into a buffer is the buffer from that position on; the
  traceback overload returns what it writes through \<open>align1\<close>, \<open>align2\<close> and \<open>first_pos\<close>.
\<close>

type_synonym fast_alignment_routine =
  "string \<Rightarrow> string \<Rightarrow> u8 list \<Rightarrow> int \<Rightarrow> int \<Rightarrow> int \<Rightarrow> int \<Rightarrow> u8 list \<Rightarrow> int"

type_synonym fast_alignment_routine_traceback =
  "string \<Rightarrow> string \<Rightarrow> u8 list \<Rightarrow> int \<Rightarrow> int \<Rightarrow> int \<Rightarrow> int \<Rightarrow> u8 list \<Rightarrow> int \<times> string \<times> string \<times> int"

type_synonym calculate_flank_score =
  "int \<Rightarrow> int \<Rightarrow> u8 list \<Rightarrow> u8 list \<Rightarrow> int \<Rightarrow> int \<Rightarrow> int \<Rightarrow> string \<Rightarrow> string \<Rightarrow> int"

definition align ::
  "fast_alignment_routine \<Rightarrow> fast_alignment_routine_traceback \<Rightarrow> calculate_flank_score \<Rightarrow>
   string \<Rightarrow> string \<Rightarrow> u8 list \<Rightarrow> u8 list \<Rightarrow> nat \<Rightarrow> Model \<Rightarrow> real" where
  "align fastAlignmentRoutine fastAlignmentRoutineTraceback calculateFlankScore
     truth target target_qualities truth_gap_open_penalties offset_hint model =
   (let truth_alignment_size = static_cast_int (int (length target + 15)) in
    if (offset_hint + to_size_t truth_alignment_size) mod 2 ^ 64 > length truth then lowest
    else
      let truncated_target_qualities = truncate_qualities target_qualities;
          truncated_truth_gap_open_penalities = truncate_qualities truth_gap_open_penalties
      in
      if flank_clear model then
        (let score = fastAlignmentRoutine (drop offset_hint truth) target
                       truncated_target_qualities truth_alignment_size
                       (static_cast_int (int (length target)))
                       (uint (gapextend model)) (uint (nucprior model))
                       (drop offset_hint truncated_truth_gap_open_penalities)
         in - ln_10_div_10 * real_of_int score)
      else
        (case fastAlignmentRoutineTraceback (drop offset_hint truth) target
                truncated_target_qualities truth_alignment_size
                (static_cast_int (int (length target)))
                (uint (gapextend model)) (uint (nucprior model))
                (drop offset_hint truncated_truth_gap_open_penalities) of
           (score, align1, align2, first_pos) \<Rightarrow>
             let flank_score = calculateFlankScore truth_alignment_size 0
                                 truncated_target_qualities
                                 truncated_truth_gap_open_penalities
                                 (uint (gapextend model)) (uint (nucprior model))
                                 (static_cast_int
                                    (int ((to_size_t first_pos + offset_hint) mod 2 ^ 64)))
                                 align1 align2
             in - ln_10_div_10 * real_of_int (score - flank_score)))"

definition compute_log_conditional_probability ::
  "fast_alignment_routine \<Rightarrow> fast_alignment_routine_traceback \<Rightarrow> calculate_flank_score \<Rightarrow>
   string \<Rightarrow> string \<Rightarrow> u8 list \<Rightarrow> u8 list \<Rightarrow> nat \<Rightarrow> Model \<Rightarrow> error + real" where
  "compute_log_conditional_probability fastAlignmentRoutine fastAlignmentRoutineTraceback
     calculateFlankScore truth target target_qualities truth_gap_open_penalties
     target_offset_into_truth_hint model =
   (if \<not> (length target = length target_qualities) then Inl AssertionFailure
    else if \<not> (length truth = length truth_gap_open_penalties) then Inl AssertionFailure
    else if \<not> (max (length truth) (length target) > target_offset_into_truth_hint)
      then Inl AssertionFailure
    else if target_offset_into_truth_hint + length target > length truth then Inr lowest
    else
      let hinted_truth = drop target_offset_into_truth_hint truth;
          p = mismatch target hinted_truth
      in
      if p = length target then Inr 0
      else
        let num_mismatches =
              count_mismatches (drop (Suc p) target) (drop (Suc p) hinted_truth) + 1
        in
        if num_mismatches = 1 then
          (let mismatch_index = p in
           if target_qualities ! mismatch_index \<le> truth_gap_open_penalties ! mismatch_index
             then Inr (phred_to_ln_probability (target_qualities ! mismatch_index))
           else if equal_seq (drop (Suc p) target) (drop p hinted_truth)
             then Inr (phred_to_ln_probability (truth_gap_open_penalties ! mismatch_index))
           else Inr (phred_to_ln_probability (target_qualities ! mismatch_index)))
        else
          Inr (align fastAlignmentRoutine fastAlignmentRoutineTraceback calculateFlankScore
                 truth target target_qualities truth_gap_open_penalties
                 target_offset_into_truth_hint model))"

text \<open>
  The value section 4.2 of the spec states for a single mismatch at position \<open>k\<close> of the
  target, for comparison with the code: the substitution cost when the target quality is
  at most "the truth's gap-open penalty at that position", the penalty of the truth base
  the mismatch is aligned to, \<open>truth_gap_open_penalties[offset_hint + k]\<close>; otherwise that
  penalty's entry when the rest of the target matches the truth shifted by one; otherwise
  the substitution cost.
\<close>

definition spec_single_mismatch_value ::
  "string \<Rightarrow> string \<Rightarrow> u8 list \<Rightarrow> u8 list \<Rightarrow> nat \<Rightarrow> nat \<Rightarrow> real" where
  "spec_single_mismatch_value truth target target_qualities truth_gap_open_penalties
     offset_hint k =
   (if target_qualities ! k \<le> truth_gap_open_penalties ! (offset_hint + k)
      then phred_to_ln_probability (target_qualities ! k)
    else if drop (Suc k) target = take (length target - Suc k) (drop (offset_hint + k) truth)
      then phred_to_ln_probability (truth_gap_open_penalties ! (offset_hint + k))
    else phred_to_ln_probability (target_qualities ! k))"

section \<open>Genome walker (genome\_walker.cpp)\<close>

text \<open>
  \<open>GenomeWalker::walk\<close> works with iterators into the candidate set.  An iterator is the
  index of its element, \<open>cend\<close> is the length of the list, and an iterator moved outside
  \<open>[cbegin, cend]\<close>, or \<open>cend\<close> dereferenced, is the error \<open>IteratorOutOfRange\<close>
  (undefined behaviour in the source).  \<open>unsigned\<close> is a 32-bit word.  A candidate and a
  read are the regions they expose; positions are \<open>nat\<close>.
\<close>

type_synonym u32 = "32 word"

text \<open>
  Modelled from the spec: the class \<open>GenomicRegion\<close> (genomic\_region.hpp is not among the
  sources), from the data model's \<open>{contig, begin, end}\<close>, half-open; the accessor names
  are the ones reference\_genome.h calls.
\<close>

record GenomicRegion =
  get_contig_name :: string
  get_begin :: nat
  get_end :: nat

type_synonym Candidates = "GenomicRegion list"

type_synonym ReadMap = "(string \<times> GenomicRegion list) list"

text \<open>
  The enumerations and members of \<open>GenomeWalker\<close> are declared in genome\_walker.hpp, which
  is not among the sources; the enumerators are the ones the constructor and \<open>walk\<close> name
  (both \<open>IndicatorLimit\<close> and \<open>ExtensionLimit\<close> have an enumerator \<open>NoLimit\<close>), and the
  member \<open>x_\<close> of the class is the field \<open>m_x\<close>.
\<close>

datatype IndicatorLimit = SharedWithPreviousRegion | IndicatorNoLimit

datatype ExtensionLimit = WithinReadLengthOfFirstIncluded | ExtensionNoLimit

datatype ExpansionLimit =
  UpToExcluded | WithinReadLength | UpToExcludedWithinReadLength | NoExpansion

record GenomeWalker =
  m_max_indicators :: u32
  m_max_included :: u32
  m_indicator_limit :: IndicatorLimit
  m_extension_limit :: ExtensionLimit
  m_expansion_limit :: ExpansionLimit

datatype walk_error = IteratorOutOfRange

definition GenomeWalker_ctor ::
  "u32 \<Rightarrow> u32 \<Rightarrow> IndicatorLimit \<Rightarrow> ExtensionLimit \<Rightarrow> ExpansionLimit \<Rightarrow> GenomeWalker" where
  "GenomeWalker_ctor max_indicators max_included indicator_limit extension_limit expansion_limit =
   \<lparr>m_max_indicators =
      (if max_included > 0 \<and> max_included \<le> max_indicators then max_included - 1
       else max_indicators),
    m_max_included = max_included,
    m_indicator_limit = indicator_limit,
    m_extension_limit = extension_limit,
    m_expansion_limit = expansion_limit\<rparr>"

subsection \<open>Region operations\<close>

text \<open>
  The operations on regions (section 2 of the spec: containment, overlap, distance, shift,
  union, over half-open intervals of one contig) are declared in genomic\_region.hpp and
  mappable.hpp, which are not among the sources.  Each is modelled from the spec's words.
\<close>

text \<open>Modelled from the spec: \<open>is_empty\<close>, a region of length 0 (section 3).\<close>

definition is_empty_region :: "GenomicRegion \<Rightarrow> bool" where
  "is_empty_region r = (get_begin r = get_end r)"

text \<open>
  Modelled from the spec: the number of positions two half-open intervals share (section
  3), negative when they are apart.
\<close>

definition overlap_size :: "GenomicRegion \<Rightarrow> GenomicRegion \<Rightarrow> int" where
  "overlap_size a b =
     int (min (get_end a) (get_end b)) - int (max (get_begin a) (get_begin b))"

text \<open>
  Modelled from the spec: \<open>overlaps\<close> (the "overlap" of section 2).  An empty region
  overlaps a region it touches: \<open>expand_around_included\<close> shifts its left boundary by one
  because an insertion directly before it "would be included in overlap\_range".
\<close>

definition overlaps :: "GenomicRegion \<Rightarrow> GenomicRegion \<Rightarrow> bool" where
  "overlaps a b =
     (get_contig_name a = get_contig_name b \<and>
      (overlap_size a b > 0 \<or>
       (overlap_size a b = 0 \<and> (is_empty_region a \<or> is_empty_region b))))"

text \<open>Modelled from the spec: \<open>contains\<close> (the "containment" of section 2).\<close>

definition contains :: "GenomicRegion \<Rightarrow> GenomicRegion \<Rightarrow> bool" where
  "contains a b =
     (get_contig_name a = get_contig_name b \<and> get_begin a \<le> get_begin b \<and>
      get_end b \<le> get_end a)"

text \<open>
  Modelled from the spec: \<open>is_before\<close> and \<open>is_after\<close>, a region that lies wholly to the
  left, or to the right, of another and does not overlap it.
\<close>

definition is_before :: "GenomicRegion \<Rightarrow> GenomicRegion \<Rightarrow> bool" where
  "is_before a b = (get_end a \<le> get_begin b \<and> \<not> overlaps a b)"

text \<open>Modelled from the spec: \<open>is_after\<close>, see \<open>is_before\<close>.\<close>

definition is_after :: "GenomicRegion \<Rightarrow> GenomicRegion \<Rightarrow> bool" where
  "is_after a b = (get_end b \<le> get_begin a \<and> \<not> overlaps a b)"

text \<open>Modelled from the spec: \<open>begins_before\<close>, by the begin positions (section 3).\<close>

definition begins_before :: "GenomicRegion \<Rightarrow> GenomicRegion \<Rightarrow> bool" where
  "begins_before a b = (get_begin a < get_begin b)"

text \<open>Modelled from the spec: \<open>ends_before\<close>, by the end positions (section 3).\<close>

definition ends_before :: "GenomicRegion \<Rightarrow> GenomicRegion \<Rightarrow> bool" where
  "ends_before a b = (get_end a < get_end b)"

text \<open>
  Modelled from the spec: \<open>inner_distance\<close> (the "distance" of section 2), signed: positive
  when the second region lies to the right of the first, as \<open>expand_around_included\<close>
  uses it to shift left towards a previous candidate and right towards an excluded one.
\<close>

definition inner_distance :: "GenomicRegion \<Rightarrow> GenomicRegion \<Rightarrow> int" where
  "inner_distance a b =
     (if overlaps a b then 0
      else if is_before a b then int (get_begin b) - int (get_end a)
      else - (int (get_begin a) - int (get_end b)))"

text \<open>Modelled from the spec: \<open>shift\<close> (section 2), both ends moved by a signed amount.\<close>

definition shift :: "GenomicRegion \<Rightarrow> int \<Rightarrow> GenomicRegion" where
  "shift r n =
     r\<lparr>get_begin := nat (int (get_begin r) + n), get_end := nat (int (get_end r) + n)\<rparr>"

text \<open>
  Modelled from the spec: \<open>get_tail\<close>, the region of a given size "immediately following"
  a region (section 4.1, step 1).
\<close>

definition get_tail :: "GenomicRegion \<Rightarrow> nat \<Rightarrow> GenomicRegion" where
  "get_tail r n =
     \<lparr>get_contig_name = get_contig_name r, get_begin = get_end r, get_end = get_end r + n\<rparr>"

text \<open>
  Modelled from the spec: \<open>get_intervening\<close>, "the minimal region spanning the gap" from a
  region up to the next one (section 4.1, step 2).
\<close>

definition get_intervening :: "GenomicRegion \<Rightarrow> GenomicRegion \<Rightarrow> GenomicRegion" where
  "get_intervening a b =
     \<lparr>get_contig_name = get_contig_name a, get_begin = get_end a, get_end = get_begin b\<rparr>"

text \<open>
  Modelled from the spec: \<open>get_encompassing\<close> (the "union" of section 2; for
  \<open>NoExpansion\<close> "the span of first-to-last included candidate").
\<close>

definition get_encompassing :: "GenomicRegion \<Rightarrow> GenomicRegion \<Rightarrow> GenomicRegion" where
  "get_encompassing a b =
     \<lparr>get_contig_name = get_contig_name a, get_begin = min (get_begin a) (get_begin b),
      get_end = max (get_end a) (get_end b)\<rparr>"

text \<open>
  Modelled from the spec: \<open>get_closed\<close>, the region from the begin of one region to the end
  of another (section 4.1, step 7: the boundary "between" the left and the right limit).
\<close>

definition get_closed :: "GenomicRegion \<Rightarrow> GenomicRegion \<Rightarrow> GenomicRegion" where
  "get_closed a b =
     \<lparr>get_contig_name = get_contig_name a, get_begin = get_begin a, get_end = get_end b\<rparr>"

text \<open>
  Modelled from the spec: the order of regions on one contig (section 3: "ordered
  lexicographically by contig then position").
\<close>

definition region_le :: "GenomicRegion \<Rightarrow> GenomicRegion \<Rightarrow> bool" where
  "region_le a b =
     (get_begin a < get_begin b \<or> (get_begin a = get_begin b \<and> get_end a \<le> get_end b))"

text \<open>
  Modelled from the spec: sortedness of a collection of candidates or reads (section 3:
  "sorted by start position").
\<close>

definition mappables_sorted :: "GenomicRegion list \<Rightarrow> bool" where
  "mappables_sorted items = sorted_wrt region_le items"

subsection \<open>Queries over sorted collections\<close>

text \<open>The elements of an iterator range \<open>[first, last)\<close>.\<close>

definition sub_range :: "'a list \<Rightarrow> nat \<Rightarrow> nat \<Rightarrow> 'a list" where
  "sub_range items first_itr last_itr = take (last_itr - first_itr) (drop first_itr items)"

text \<open>
  Modelled from the spec: \<open>overlap_range\<close> followed by \<open>bases\<close> (section 4.3: the
  "contiguous sub-range of items overlapping region" of a sorted collection, as the index
  pair of section 9).  The range ends at the first item that lies after the region, and
  starts at the first item before that which overlaps it.
\<close>

definition overlap_range :: "GenomicRegion list \<Rightarrow> GenomicRegion \<Rightarrow> nat \<times> nat" where
  "overlap_range items region =
     (let e = length (takeWhile (\<lambda>m. \<not> is_after m region) items);
          b = length (takeWhile (\<lambda>m. \<not> overlaps m region) (take e items))
      in (b, e))"

text \<open>Modelled from the spec: \<open>count_overlapped\<close> (section 4.3).\<close>

definition count_overlapped :: "GenomicRegion list \<Rightarrow> GenomicRegion \<Rightarrow> nat" where
  "count_overlapped items region = length (filter (\<lambda>m. overlaps m region) items)"

text \<open>
  Modelled from the spec: two items share a read when a read of some sample overlaps both
  (section 4.3: their "supporting reads intersect").
\<close>

definition shares_read :: "ReadMap \<Rightarrow> GenomicRegion \<Rightarrow> GenomicRegion \<Rightarrow> bool" where
  "shares_read reads a b =
     list_ex (\<lambda>(sample, rs). list_ex (\<lambda>r. overlaps r a \<and> overlaps r b) rs) reads"

text \<open>
  Modelled from the spec: \<open>find_first_shared\<close> (section 4.3: the "earliest item in a range
  whose supporting reads intersect the supporting reads of a given target item"; the end
  of the range when there is none).
\<close>

definition find_first_shared ::
  "ReadMap \<Rightarrow> GenomicRegion list \<Rightarrow> nat \<Rightarrow> nat \<Rightarrow> GenomicRegion \<Rightarrow> nat" where
  "find_first_shared reads items first_itr last_itr target =
     first_itr
     + length (takeWhile (\<lambda>m. \<not> shares_read reads m target) (sub_range items first_itr last_itr))"

text \<open>
  Modelled from the spec: \<open>count_if_shared_with_first\<close>, for the reads of one sample
  (section 4.1, step 4: "how many subsequent candidates fall within one read length of the
  first included candidate"): the number of items after the first of the range that a read
  overlapping the first also overlaps.
\<close>

definition count_if_shared_with_first ::
  "GenomicRegion list \<Rightarrow> GenomicRegion list \<Rightarrow> nat \<Rightarrow> nat \<Rightarrow> nat" where
  "count_if_shared_with_first rs items first_itr last_itr =
     (if first_itr = last_itr then 0
      else length (filter (\<lambda>m. list_ex (\<lambda>r. overlaps r (items ! first_itr) \<and> overlaps r m) rs)
                     (sub_range items (Suc first_itr) last_itr)))"

text \<open>
  Modelled from the spec: \<open>max_count_if_shared_with_first\<close> (section 4.3, a "density
  metric"): the maximum of \<open>count_if_shared_with_first\<close> over the samples.
\<close>

definition max_count_if_shared_with_first ::
  "ReadMap \<Rightarrow> GenomicRegion list \<Rightarrow> nat \<Rightarrow> nat \<Rightarrow> nat" where
  "max_count_if_shared_with_first reads items first_itr last_itr =
     fold (\<lambda>(sample, rs) maximum.
             max maximum (count_if_shared_with_first rs items first_itr last_itr))
       reads 0"

text \<open>
  Modelled from the spec: \<open>rightmost_mappable\<close>, the (first) item of a range that ends
  furthest to the right.
\<close>

definition rightmost_mappable :: "GenomicRegion list \<Rightarrow> nat \<Rightarrow> nat \<Rightarrow> nat" where
  "rightmost_mappable items first_itr last_itr =
     (let xs = sub_range items first_itr last_itr;
          m = fold max (map get_end xs) 0
      in first_itr + length (takeWhile (\<lambda>x. get_end x \<noteq> m) xs))"

text \<open>Modelled from the spec: the reads of all samples that overlap a region.\<close>

definition overlapped_reads :: "ReadMap \<Rightarrow> GenomicRegion \<Rightarrow> GenomicRegion list" where
  "overlapped_reads reads m = filter (\<lambda>r. overlaps r m) (concat (map snd reads))"

text \<open>
  Modelled from the spec: \<open>leftmost_overlapped\<close> (section 4.3: "the overlapping item with
  smallest ... start"); \<open>None\<close> is the end iterator returned when no read overlaps.
\<close>

definition leftmost_overlapped :: "ReadMap \<Rightarrow> GenomicRegion \<Rightarrow> GenomicRegion option" where
  "leftmost_overlapped reads m =
     (case overlapped_reads reads m of
        [] \<Rightarrow> None
      | r # rs \<Rightarrow> Some (fold (\<lambda>x best. if get_begin x < get_begin best then x else best) rs r))"

text \<open>
  Modelled from the spec: \<open>rightmost_overlapped\<close> (section 4.3: "the overlapping item with
  ... largest start"); \<open>None\<close> is the end iterator returned when no read overlaps.
\<close>

definition rightmost_overlapped :: "ReadMap \<Rightarrow> GenomicRegion \<Rightarrow> GenomicRegion option" where
  "rightmost_overlapped reads m =
     (case overlapped_reads reads m of
        [] \<Rightarrow> None
      | r # rs \<Rightarrow> Some (fold (\<lambda>x best. if get_begin best < get_begin x then x else best) rs r))"

subsection \<open>The walk\<close>

definition is_optimal_to_extend ::
  "GenomicRegion list \<Rightarrow> nat \<Rightarrow> nat \<Rightarrow> nat \<Rightarrow> nat \<Rightarrow> ReadMap \<Rightarrow> u32 \<Rightarrow> bool" where
  "is_optimal_to_extend items first_included proposed_included first_excluded last_itr reads
     max_density_increase =
   (if proposed_included = last_itr then False
    else if first_excluded = last_itr then True
    else
      let increases_density =
            (max_count_if_shared_with_first reads items proposed_included last_itr
               \<ge> unat max_density_increase)
      in \<not> increases_density \<or>
         inner_distance (items ! (proposed_included - 1)) (items ! proposed_included)
           \<le> inner_distance (items ! proposed_included) (items ! first_excluded))"

text \<open>
  \<open>expand_around_included\<close>.  The range \<open>[first_previous, first_included)\<close> that line 72
  passes to \<open>count_overlapped\<close> is a valid iterator range only when \<open>first_included\<close> does
  not lie before \<open>first_previous\<close>; otherwise the call is the error.
\<close>

definition expand_around_included ::
  "GenomicRegion list \<Rightarrow> nat \<Rightarrow> nat \<Rightarrow> nat \<Rightarrow> nat \<Rightarrow> ReadMap \<Rightarrow> walk_error + GenomicRegion" where
  "expand_around_included items first_previous first_included first_excluded last_itr reads =
   (let last_included = first_excluded - 1 in
    case leftmost_overlapped reads (items ! first_included) of
      None \<Rightarrow> Inl IteratorOutOfRange
    | Some leftmost_read \<Rightarrow>
    (case rightmost_overlapped reads (items ! last_included) of
      None \<Rightarrow> Inl IteratorOutOfRange
    | Some rightmost_read \<Rightarrow>
      if first_included < first_previous then Inl IteratorOutOfRange
      else
      let leftmost_region =
            (if count_overlapped (sub_range items first_previous first_included) leftmost_read > 0
             then
               let max_left_flank_size =
                     inner_distance (items ! first_included)
                       (items ! rightmost_mappable items first_previous first_included);
                   shifted = shift (items ! first_included) max_left_flank_size
               in if overlaps (items ! (first_included - 1)) shifted then shift shifted 1
                  else shifted
             else leftmost_read);
          rightmost_region =
            (if first_excluded \<noteq> last_itr \<and> contains rightmost_read (items ! first_excluded)
             then
               let max_right_flank_size =
                     inner_distance (items ! last_included) (items ! first_excluded)
               in shift (items ! last_included) max_right_flank_size
             else rightmost_read)
      in Inr (get_closed leftmost_region rightmost_region)))"

text \<open>
  Lines 115 to 121 of \<open>walk\<close>: the number of indicators.
\<close>

definition count_indicators :: "GenomeWalker \<Rightarrow> ReadMap \<Rightarrow> Candidates \<Rightarrow> nat \<Rightarrow> nat \<Rightarrow> u32" where
  "count_indicators w reads candidates first_previous_itr included_itr =
   (let num_indicators = m_max_indicators w in
    if m_indicator_limit w = SharedWithPreviousRegion then
      let it = find_first_shared reads candidates first_previous_itr included_itr
                 (candidates ! included_itr);
          max_possible_indicators = (word_of_nat (included_itr - it) :: u32)
      in min max_possible_indicators num_indicators
    else num_indicators)"

text \<open>
  Lines 123 to 137 of \<open>walk\<close>: \<open>num_included\<close> and \<open>num_excluded_candidates\<close>, in
  \<open>unsigned\<close> arithmetic.
\<close>

definition count_included ::
  "GenomeWalker \<Rightarrow> ReadMap \<Rightarrow> Candidates \<Rightarrow> nat \<Rightarrow> u32 \<Rightarrow> u32 \<times> u32" where
  "count_included w reads candidates included_itr num_indicators =
   (let last_variant_itr = length candidates;
        num_included = m_max_included w - num_indicators;
        num_remaining_candidates = (word_of_nat (last_variant_itr - included_itr) :: u32)
    in
    if m_extension_limit w = WithinReadLengthOfFirstIncluded then
      let max_candidates_within_read_length =
            (word_of_nat (max_count_if_shared_with_first reads candidates included_itr
                            last_variant_itr) :: u32);
          num_included = min num_included
                           (min num_remaining_candidates (max_candidates_within_read_length + 1));
          num_excluded_candidates = max_candidates_within_read_length - num_included
      in (num_included, num_excluded_candidates)
    else (min num_included num_remaining_candidates, 0))"

text \<open>
  The loop of lines 141 to 145: \<open>--num_included\<close> is evaluated at every test of the
  condition, and the budget passed to \<open>is_optimal_to_extend\<close> is the decremented count plus
  \<open>num_excluded_candidates\<close>.
\<close>

function extend_included ::
  "GenomicRegion list \<Rightarrow> ReadMap \<Rightarrow> nat \<Rightarrow> nat \<Rightarrow> nat \<Rightarrow> u32 \<Rightarrow> u32 \<Rightarrow> nat \<Rightarrow> nat" where
  "extend_included items reads first_included_itr first_excluded_itr last_variant_itr
     num_excluded_candidates num_included included_itr =
   (if num_included - 1 > 0 \<and>
       is_optimal_to_extend items first_included_itr (Suc included_itr) first_excluded_itr
         last_variant_itr reads ((num_included - 1) + num_excluded_candidates)
    then extend_included items reads first_included_itr first_excluded_itr last_variant_itr
           num_excluded_candidates (num_included - 1) (Suc included_itr)
    else included_itr)"
  by pat_completeness auto
termination
proof (relation "measure (\<lambda>(items, reads, fi, fe, l, ne, n, i). unat (n - 1))")
  show "wf (measure (\<lambda>(items, reads, fi, fe, l, ne, n :: u32, i). unat (n - 1)))"
    by simp
next
  fix items :: "GenomicRegion list" and reads :: ReadMap
    and fi fe l :: nat and ne n :: u32 and i :: nat
  assume "0 < n - 1 \<and> is_optimal_to_extend items fi (Suc i) fe l reads (n - 1 + ne)"
  then have "n - 1 \<noteq> 0" by auto
  then have "unat (n - 1 - 1) < unat (n - 1)"
    using unat_minus_one[of "n - 1"] unat_gt_0[of "n - 1"] by linarith
  then show "((items, reads, fi, fe, l, ne, n - 1, Suc i), (items, reads, fi, fe, l, ne, n, i))
      \<in> measure (\<lambda>(items, reads, fi, fe, l, ne, n, i). unat (n - 1))"
    by simp
qed

declare extend_included.simps [simp del]

text \<open>
  The loop of lines 169 to 171: \<open>first_previous_itr\<close> moves right until it meets
  \<open>first_included_itr\<close> or a candidate that the read does not begin before.  When
  \<open>first_included_itr\<close> lies before it, the two never meet, and the loop dereferences
  \<open>cend\<close> unless a candidate stops it first.
\<close>

function skip_previous :: "GenomicRegion list \<Rightarrow> GenomicRegion \<Rightarrow> nat \<Rightarrow> nat \<Rightarrow> walk_error + nat" where
  "skip_previous items lhs_read first_included_itr first_previous_itr =
   (if first_previous_itr = first_included_itr then Inr first_previous_itr
    else if length items \<le> first_previous_itr then Inl IteratorOutOfRange
    else if begins_before lhs_read (items ! first_previous_itr)
      then skip_previous items lhs_read first_included_itr (Suc first_previous_itr)
    else Inr first_previous_itr)"
  by pat_completeness auto
termination
  by (relation "measure (\<lambda>(items, lhs_read, fi, fp). length items - fp)") auto

declare skip_previous.simps [simp del]

definition walk ::
  "GenomeWalker \<Rightarrow> GenomicRegion \<Rightarrow> ReadMap \<Rightarrow> Candidates \<Rightarrow> walk_error + GenomicRegion" where
  "walk w previous_region reads candidates =
   (let last_variant_itr = length candidates;
        previous_candidates = overlap_range candidates previous_region;
        first_previous_itr = fst previous_candidates;
        included_itr = snd previous_candidates
    in
    if included_itr = last_variant_itr then Inr (get_tail previous_region 0)
    else if m_max_included w = 0 then
      (if included_itr \<noteq> last_variant_itr
       then Inr (get_intervening previous_region (candidates ! included_itr))
       else Inr previous_region)
    else
      let num_indicators = count_indicators w reads candidates first_previous_itr included_itr
      in
      if unat num_indicators > included_itr then Inl IteratorOutOfRange
      else
        let first_included_itr = included_itr - unat num_indicators;
            counts = count_included w reads candidates included_itr num_indicators;
            num_included = fst counts;
            num_excluded_candidates = snd counts;
            first_excluded_itr = included_itr + unat num_included;
            included_itr = extend_included candidates reads first_included_itr
                             first_excluded_itr last_variant_itr num_excluded_candidates
                             num_included included_itr;
            advanced = int included_itr
                       + int (count_overlapped candidates
                                (candidates ! rightmost_mappable candidates first_included_itr
                                                (Suc included_itr)))
                       - 1
        in
        if advanced < 0 \<or> advanced > int last_variant_itr then Inl IteratorOutOfRange
        else
          let included_itr = (if nat advanced = last_variant_itr then nat advanced - 1
                              else nat advanced);
              first_excluded_itr = Suc included_itr
          in
          case m_expansion_limit w of
            UpToExcluded \<Rightarrow>
              expand_around_included candidates first_previous_itr first_included_itr
                first_excluded_itr last_variant_itr reads
          | WithinReadLength \<Rightarrow>
              (case leftmost_overlapped reads (candidates ! first_included_itr) of
                 None \<Rightarrow> Inl IteratorOutOfRange
               | Some lhs_read \<Rightarrow>
                 (case rightmost_overlapped reads (candidates ! included_itr) of
                    None \<Rightarrow> Inl IteratorOutOfRange
                  | Some rhs_read \<Rightarrow> Inr (get_encompassing lhs_read rhs_read)))
          | UpToExcludedWithinReadLength \<Rightarrow>
              (case leftmost_overlapped reads (candidates ! first_included_itr) of
                 None \<Rightarrow> Inl IteratorOutOfRange
               | Some lhs_read \<Rightarrow>
                 (case skip_previous candidates lhs_read first_included_itr
                         first_previous_itr of
                    Inl e \<Rightarrow> Inl e
                  | Inr first_previous_itr \<Rightarrow>
                    (case rightmost_overlapped reads (candidates ! included_itr) of
                       None \<Rightarrow> Inl IteratorOutOfRange
                     | Some rhs_read \<Rightarrow>
                       let last_variant_itr =
                             last_variant_itr
                             - length (takeWhile (\<lambda>m. ends_before rhs_read m)
                                         (rev (sub_range candidates first_excluded_itr
                                                 last_variant_itr)))
                       in expand_around_included candidates first_previous_itr
                            first_included_itr first_excluded_itr last_variant_itr reads)))
          | NoExpansion \<Rightarrow>
              Inr (get_encompassing (candidates ! first_included_itr)
                     (candidates ! included_itr)))"

text \<open>
  The two public operations.  Neither they nor \<open>walk\<close> assign a member; they return the
  walker they were called on next to their result.
\<close>

definition start_walk ::
  "GenomeWalker \<Rightarrow> string \<Rightarrow> ReadMap \<Rightarrow> Candidates \<Rightarrow>
   GenomeWalker \<times> (walk_error + GenomicRegion)" where
  "start_walk w contig reads candidates =
     (w, walk w \<lparr>get_contig_name = contig, get_begin = 0, get_end = 0\<rparr> reads candidates)"

definition continue_walk ::
  "GenomeWalker \<Rightarrow> GenomicRegion \<Rightarrow> ReadMap \<Rightarrow> Candidates \<Rightarrow>
   GenomeWalker \<times> (walk_error + GenomicRegion)" where
  "continue_walk w previous_region reads candidates =
     (w, walk w previous_region reads candidates)"

section \<open>Example inputs\<close>

text \<open>
  Stand-ins for the absent alignment routines, used where a closed example needs one.
\<close>

definition stub_far :: fast_alignment_routine where
  "stub_far = (\<lambda>_ _ _ _ _ _ _ _. 0)"

definition stub_far_tb :: fast_alignment_routine_traceback where
  "stub_far_tb = (\<lambda>_ _ _ _ _ _ _ _. (0, [], [], 0))"

definition stub_cfs :: calculate_flank_score where
  "stub_cfs = (\<lambda>_ _ _ _ _ _ _ _ _. 0)"

definition example_model :: Model where
  "example_model = \<lparr>gapextend = 1, nucprior = 2, flank_clear = True\<rparr>"

definition other_model :: Model where
  "other_model = \<lparr>gapextend = 7, nucprior = 0, flank_clear = False\<rparr>"

text \<open>
  A read of \<open>2^31 - 15\<close> bases whose first two bases differ from the haplotype, placed at
  offset \<open>2^31\<close> of a haplotype of \<open>2^32 - 15\<close> bases: the read ends exactly where the
  haplotype ends.
\<close>

definition long_truth :: string where
  "long_truth = replicate (2 ^ 32 - 15) (CHR ''A'')"

definition long_target :: string where
  "long_target = CHR ''C'' # CHR ''C'' # replicate (2 ^ 31 - 17) (CHR ''A'')"

definition long_target_qualities :: "u8 list" where
  "long_target_qualities = replicate (2 ^ 31 - 15) 30"

definition long_truth_gap_open_penalties :: "u8 list" where
  "long_truth_gap_open_penalties = replicate (2 ^ 32 - 15) 40"

definition long_offset :: nat where
  "long_offset = 2 ^ 31"

text \<open>A single-base candidate and a region on contig \<open>1\<close>.\<close>

definition snp :: "nat \<Rightarrow> GenomicRegion" where
  "snp p = \<lparr>get_contig_name = ''1'', get_begin = p, get_end = Suc p\<rparr>"

definition mk_region :: "nat \<Rightarrow> nat \<Rightarrow> GenomicRegion" where
  "mk_region b e = \<lparr>get_contig_name = ''1'', get_begin = b, get_end = e\<rparr>"

text \<open>
  Three candidates, the first two covered by one read, walked with up to five included
  candidates and the extension limit \<open>WithinReadLengthOfFirstIncluded\<close>.
\<close>

definition underflow_walker :: GenomeWalker where
  "underflow_walker =
     GenomeWalker_ctor 0 5 SharedWithPreviousRegion WithinReadLengthOfFirstIncluded NoExpansion"

definition underflow_reads :: ReadMap where
  "underflow_reads = [(''sample'', [mk_region 90 200])]"

definition underflow_candidates :: Candidates where
  "underflow_candidates = [snp 100, snp 150, snp 1000]"

text \<open>A walker with one indicator and no limit on indicators.\<close>

definition unbounded_walker :: GenomeWalker where
  "unbounded_walker = GenomeWalker_ctor 1 2 IndicatorNoLimit ExtensionNoLimit NoExpansion"

section \<open>Properties of the pair HMM fast path\<close>

subsection \<open>The standard algorithms\<close>

lemma mismatch_le: "mismatch xs ys \<le> length xs"
  by (induction xs ys rule: mismatch.induct) auto

lemma mismatch_char:
  "length xs \<le> length ys \<Longrightarrow> k < length xs \<Longrightarrow> xs ! k \<noteq> ys ! k \<Longrightarrow>
   \<forall>j<k. xs ! j = ys ! j \<Longrightarrow> mismatch xs ys = k"
proof (induction xs ys arbitrary: k rule: mismatch.induct)
  case (1 x xs y ys)
  show ?case
  proof (cases k)
    case 0
    with 1 show ?thesis by simp
  next
    case (Suc k')
    with 1(3-) have "x = y" by auto
    moreover have "mismatch xs ys = k'"
      using 1 Suc \<open>x = y\<close> by (intro 1(1)) auto
    ultimately show ?thesis using Suc by simp
  qed
qed auto

lemma mismatch_full:
  "length xs \<le> length ys \<Longrightarrow> \<forall>j<length xs. xs ! j = ys ! j \<Longrightarrow> mismatch xs ys = length xs"
proof (induction xs ys rule: mismatch.induct)
  case (1 x xs y ys)
  then show ?case by (auto simp: nth_Cons split: nat.splits)
qed auto

lemma mismatch_le_first:
  "length xs \<le> length ys \<Longrightarrow> k < length xs \<Longrightarrow> xs ! k \<noteq> ys ! k \<Longrightarrow> mismatch xs ys \<le> k"
proof (induction xs ys arbitrary: k rule: mismatch.induct)
  case (1 x xs y ys)
  then show ?case by (cases k) auto
qed auto

lemma mismatch_nth:
  "length xs \<le> length ys \<Longrightarrow> mismatch xs ys < length xs \<Longrightarrow>
   xs ! mismatch xs ys \<noteq> ys ! mismatch xs ys"
  by (induction xs ys rule: mismatch.induct) (auto split: if_splits)

lemma count_mismatches_zero:
  "length xs \<le> length ys \<Longrightarrow> \<forall>j<length xs. xs ! j = ys ! j \<Longrightarrow> count_mismatches xs ys = 0"
proof (induction xs ys rule: count_mismatches.induct)
  case (1 x xs y ys)
  then show ?case by (auto simp: nth_Cons split: nat.splits)
qed auto

lemma count_mismatches_pos:
  "length xs \<le> length ys \<Longrightarrow> k < length xs \<Longrightarrow> xs ! k \<noteq> ys ! k \<Longrightarrow> 0 < count_mismatches xs ys"
proof (induction xs ys arbitrary: k rule: count_mismatches.induct)
  case (1 x xs y ys)
  then show ?case by (cases k) auto
qed auto

lemma count_mismatches_same: "count_mismatches xs xs = 0"
  by (induction xs) auto

lemma equal_seq_iff:
  "equal_seq xs ys \<longleftrightarrow> length xs \<le> length ys \<and> xs = take (length xs) ys"
  by (induction xs ys rule: equal_seq.induct) auto

subsection \<open>Which branch decides\<close>

lemma single_mismatch_value:
  assumes "length target = length target_qualities"
    and "length truth = length truth_gap_open_penalties"
    and "offset_hint < max (length truth) (length target)"
    and "offset_hint + length target \<le> length truth"
    and "k < length target"
    and "target ! k \<noteq> truth ! (offset_hint + k)"
    and "\<forall>j<length target. j \<noteq> k \<longrightarrow> target ! j = truth ! (offset_hint + j)"
  shows "compute_log_conditional_probability far far_tb cfs truth target target_qualities
           truth_gap_open_penalties offset_hint model =
         Inr (if target_qualities ! k \<le> truth_gap_open_penalties ! k
                then phred_to_ln_probability (target_qualities ! k)
              else if drop (Suc k) target =
                        take (length target - Suc k) (drop (offset_hint + k) truth)
                then phred_to_ln_probability (truth_gap_open_penalties ! k)
              else phred_to_ln_probability (target_qualities ! k))"
proof -
  let ?h = "drop offset_hint truth"
  have len: "length target \<le> length ?h"
    using assms(4) by simp
  have nth: "?h ! j = truth ! (offset_hint + j)" if "j < length target" for j
    using assms(4) that by simp
  have p: "mismatch target ?h = k"
    using len assms(5,6,7) by (intro mismatch_char) (auto simp: nth)
  have rest: "count_mismatches (drop (Suc k) target) (drop (Suc k) ?h) = 0"
    using assms(4,5,7) by (intro count_mismatches_zero) (auto simp: ac_simps)
  have eq: "equal_seq (drop (Suc k) target) (drop k ?h) \<longleftrightarrow>
            drop (Suc k) target = take (length target - Suc k) (drop (offset_hint + k) truth)"
    using assms(4,5) by (auto simp: equal_seq_iff add.commute)
  show ?thesis
    using assms(1-5) p rest eq
    by (simp add: compute_log_conditional_probability_def Let_def)
qed

lemma phred_value: "phred_to_ln_probability q = - ln_10_div_10 * real (unat q)"
proof -
  have "unat q < 256"
    using unsigned_less[of q, where ?'a = nat] by simp
  then show ?thesis
    by (simp add: phred_to_ln_probability_def make_phred_to_ln_prob_lookup_def
        NUM_QUALITIES_def)
qed

text \<open>
  At offset 0 the index the fast path uses is the truth position of the mismatch, and the
  code returns the value the spec states.
\<close>

lemma single_mismatch_agrees_at_offset_zero:
  assumes "length target = length target_qualities"
    and "length truth = length truth_gap_open_penalties"
    and "0 < max (length truth) (length target)"
    and "length target \<le> length truth"
    and "k < length target"
    and "target ! k \<noteq> truth ! k"
    and "\<forall>j<length target. j \<noteq> k \<longrightarrow> target ! j = truth ! j"
  shows "compute_log_conditional_probability far far_tb cfs truth target target_qualities
           truth_gap_open_penalties 0 model =
         Inr (spec_single_mismatch_value truth target target_qualities
                truth_gap_open_penalties 0 k)"
  using single_mismatch_value[of target target_qualities truth truth_gap_open_penalties 0 k]
    assms
  by (simp add: spec_single_mismatch_value_def)

lemma at_most_one_mismatch_fast:
  assumes "offset_hint + length target \<le> length truth"
    and "\<forall>j<length target. j \<noteq> k \<longrightarrow> target ! j = truth ! (offset_hint + j)"
  shows "mismatch target (drop offset_hint truth) = length target \<or>
         count_mismatches (drop (Suc (mismatch target (drop offset_hint truth))) target)
           (drop (Suc (mismatch target (drop offset_hint truth))) (drop offset_hint truth)) = 0"
proof (cases "mismatch target (drop offset_hint truth) = length target")
  case False
  let ?h = "drop offset_hint truth"
  let ?p = "mismatch target ?h"
  have len: "length target \<le> length ?h"
    using assms(1) by simp
  have lt: "?p < length target"
    using False mismatch_le[of target ?h] by simp
  then have "target ! ?p \<noteq> ?h ! ?p"
    using len by (intro mismatch_nth)
  then have "?p = k"
    using assms lt by auto
  then have "count_mismatches (drop (Suc ?p) target) (drop (Suc ?p) ?h) = 0"
    using assms lt by (intro count_mismatches_zero) (auto simp: ac_simps)
  then show ?thesis ..
qed simp

lemma two_mismatches_reach_align:
  assumes "length target = length target_qualities"
    and "length truth = length truth_gap_open_penalties"
    and "offset_hint < max (length truth) (length target)"
    and "offset_hint + length target \<le> length truth"
    and "i < j" and "j < length target"
    and "target ! i \<noteq> truth ! (offset_hint + i)"
    and "target ! j \<noteq> truth ! (offset_hint + j)"
  shows "compute_log_conditional_probability far far_tb cfs truth target target_qualities
           truth_gap_open_penalties offset_hint model =
         Inr (align far far_tb cfs truth target target_qualities
                truth_gap_open_penalties offset_hint model)"
proof -
  let ?h = "drop offset_hint truth"
  let ?p = "mismatch target ?h"
  have len: "length target \<le> length ?h"
    using assms(4) by simp
  have "?p \<le> i"
    using len assms(4-7) by (intro mismatch_le_first) auto
  then have pj: "Suc ?p \<le> j" and pl: "?p \<noteq> length target"
    using assms(5,6) by auto
  have "drop (Suc ?p) target ! (j - Suc ?p) \<noteq> drop (Suc ?p) ?h ! (j - Suc ?p)"
    using pj assms(4,6,8) by (simp add: ac_simps)
  then have "0 < count_mismatches (drop (Suc ?p) target) (drop (Suc ?p) ?h)"
    using pj assms(4,6) by (intro count_mismatches_pos[where k = "j - Suc ?p"]) auto
  then show ?thesis
    using assms(1-4) pl by (simp add: compute_log_conditional_probability_def Let_def)
qed

lemma align_guard_small:
  assumes "length target + 15 < 2 ^ 31"
    and "length truth < 2 ^ 63"
    and "offset_hint + length target \<le> length truth"
    and "offset_hint + length target + 15 > length truth"
  shows "align far far_tb cfs truth target target_qualities truth_gap_open_penalties
           offset_hint model = lowest"
proof -
  have a: "static_cast_int (int (length target + 15)) = int (length target + 15)"
    using assms(1) by (simp add: static_cast_int_def)
  have b: "to_size_t (int (length target + 15)) = length target + 15"
    using assms(1) by (simp add: to_size_t_def nat_mod_distrib)
  have c: "(offset_hint + (length target + 15)) mod 2 ^ 64 = offset_hint + (length target + 15)"
    using assms(2,3) by simp
  show ?thesis
    unfolding align_def a b c Let_def using assms(4) by simp
qed

lemma score_never_lowest: "- ln_10_div_10 * real_of_int z \<noteq> lowest"
proof
  assume "- ln_10_div_10 * real_of_int z = lowest"
  then have "real_of_int (23025850929940458 * z) = real_of_int ((2 ^ 53 - 1) * 2 ^ 971 * 10 ^ 17)"
    by (simp add: ln_10_div_10_def lowest_def field_simps)
  then have eq: "23025850929940458 * z = (2 ^ 53 - 1) * 2 ^ 971 * (10 ^ 17 :: int)"
    by (simp only: of_int_eq_iff)
  have e3: "3 * (7675283643313486 * z) = 23025850929940458 * z"
    by simp
  have "(3 * (7675283643313486 * z)) mod 3 = ((2 ^ 53 - 1) * 2 ^ 971 * (10 ^ 17 :: int)) mod 3"
    by (simp only: e3 eq)
  moreover have "(3 * (7675283643313486 * z)) mod 3 = 0"
    by (rule mod_mult_self1_is_0)
  moreover have "((2 ^ 53 - 1) * 2 ^ 971 * (10 ^ 17 :: int)) mod 3 = 2"
    by simp
  ultimately show False by (simp only:)
qed

text \<open>
  Past its guard, \<open>align\<close> returns a multiple of \<open>-ln_10_div_10\<close> by an integer score,
  which is never the sentinel, whatever the alignment routines compute.
\<close>

lemma align_not_lowest:
  assumes "\<not> (offset_hint + to_size_t (static_cast_int (int (length target + 15)))) mod 2 ^ 64
             > length truth"
  shows "align far far_tb cfs truth target tq gp offset_hint model \<noteq> lowest"
proof (cases "flank_clear model")
  case True
  with assms show ?thesis
    using score_never_lowest by (simp add: align_def Let_def)
next
  case False
  obtain score align1 align2 first_pos where
    r: "far_tb (drop offset_hint truth) target (truncate_qualities tq)
          (static_cast_int (int (length target + 15))) (static_cast_int (int (length target)))
          (uint (gapextend model)) (uint (nucprior model))
          (drop offset_hint (truncate_qualities gp)) = (score, align1, align2, first_pos)"
    by (metis prod_cases4)
  from False assms r show ?thesis
    using score_never_lowest by (simp add: align_def Let_def del: of_int_diff)
qed

lemma long_reaches_align:
  assumes "a \<noteq> c"
  shows "compute_log_conditional_probability far far_tb cfs
      (replicate (offset + Suc (Suc m)) a) (c # c # replicate m a)
      (replicate (Suc (Suc m)) q) (replicate (offset + Suc (Suc m)) g) offset model =
    Inr (align far far_tb cfs
      (replicate (offset + Suc (Suc m)) a) (c # c # replicate m a)
      (replicate (Suc (Suc m)) q) (replicate (offset + Suc (Suc m)) g) offset model)"
proof -
  have d: "drop offset (replicate (offset + Suc (Suc m)) a) = a # a # replicate m a"
    by (simp only: drop_replicate add_diff_cancel_left' replicate_Suc)
  show ?thesis
    unfolding compute_log_conditional_probability_def d using assms
    by (simp add: Let_def count_mismatches_same max_def)
qed


subsection \<open>The claims about \<open>compute_log_conditional_probability\<close>\<close>

text \<open>
  Claim C1.  With a single mismatch at position \<open>k\<close> of the target, the claim has the
  result chosen by comparing the target quality at \<open>k\<close> with the truth's gap-open penalty
  at the mismatch.  The penalty vector is as long as \<open>truth\<close> and \<open>align\<close> reads it from
  \<open>offset_hint\<close> on, so the penalty of the truth base at the mismatch is
  \<open>truth_gap_open_penalties[offset_hint + k]\<close>.  The fast path reads
  \<open>truth_gap_open_penalties[mismatch_index]\<close> with \<open>mismatch_index = k\<close>, without the offset
  (\<open>single_mismatch_value\<close>).  For the read \<open>CGAT\<close> at offset 1 of \<open>ACGTTACG\<close>, with
  qualities \<open>10, 20, 30, 40\<close> and penalties \<open>1, 2, 33, 4, 5, 6, 7, 8\<close>, the mismatch is at
  \<open>k = 2\<close>: the code compares the quality 30 with the penalty 33 at index 2 and returns the
  entry of 30; the penalty at the mismatch, index 3, is 4, the rest of the read matches the
  shifted truth, and the stated result is the entry of 4.
\<close>

theorem fast_path_penalty_index_slip:
  "length ''CGAT'' = length [10, 20, 30, 40 :: u8]
   \<and> length ''ACGTTACG'' = length [1, 2, 33, 4, 5, 6, 7, 8 :: u8]
   \<and> 1 + length ''CGAT'' \<le> length ''ACGTTACG''
   \<and> ''CGAT'' ! 0 = ''ACGTTACG'' ! (1 + 0)
   \<and> ''CGAT'' ! 1 = ''ACGTTACG'' ! (1 + 1)
   \<and> ''CGAT'' ! 2 \<noteq> ''ACGTTACG'' ! (1 + 2)
   \<and> ''CGAT'' ! 3 = ''ACGTTACG'' ! (1 + 3)
   \<and> compute_log_conditional_probability stub_far stub_far_tb stub_cfs
        ''ACGTTACG'' ''CGAT'' [10, 20, 30, 40] [1, 2, 33, 4, 5, 6, 7, 8] 1 example_model
       = Inr (phred_to_ln_probability 30)
   \<and> spec_single_mismatch_value ''ACGTTACG'' ''CGAT'' [10, 20, 30, 40]
        [1, 2, 33, 4, 5, 6, 7, 8] 1 2
       = phred_to_ln_probability 4
   \<and> phred_to_ln_probability 30 \<noteq> phred_to_ln_probability 4"
proof -
  have "compute_log_conditional_probability stub_far stub_far_tb stub_cfs
          ''ACGTTACG'' ''CGAT'' [10, 20, 30, 40] [1, 2, 33, 4, 5, 6, 7, 8] 1 example_model
        = Inr (phred_to_ln_probability 30)"
    using single_mismatch_value[of "''CGAT''" "[10, 20, 30, 40]" "''ACGTTACG''"
        "[1, 2, 33, 4, 5, 6, 7, 8]" 1 2 stub_far stub_far_tb stub_cfs example_model]
    by (simp add: All_less_Suc)
  moreover have "spec_single_mismatch_value ''ACGTTACG'' ''CGAT'' [10, 20, 30, 40]
                   [1, 2, 33, 4, 5, 6, 7, 8] 1 2 = phred_to_ln_probability 4"
    by (simp add: spec_single_mismatch_value_def)
  moreover have "phred_to_ln_probability 30 \<noteq> phred_to_ln_probability 4"
    by (simp add: phred_value ln_10_div_10_def)
  ultimately show ?thesis
    by simp
qed

text \<open>
  Claim C2.  When the preconditions hold and \<open>offset_hint + len(target) > len(truth)\<close>, the
  result is \<open>std::numeric_limits<double>::lowest()\<close>.
\<close>

theorem infeasible_offset_sentinel:
  assumes "length target = length target_qualities"
    and "length truth = length truth_gap_open_penalties"
    and "offset_hint < max (length truth) (length target)"
    and "offset_hint + length target > length truth"
  shows "compute_log_conditional_probability far far_tb cfs truth target target_qualities
           truth_gap_open_penalties offset_hint model = Inr lowest"
  using assms by (simp add: compute_log_conditional_probability_def)

theorem infeasible_offset_sentinel_witness:
  "compute_log_conditional_probability stub_far stub_far_tb stub_cfs
     ''ACGT'' ''GTA'' [10, 20, 30] [1, 2, 3, 4] 2 example_model = Inr lowest"
  using infeasible_offset_sentinel[of "''GTA''" "[10, 20, 30]" "''ACGT''" "[1, 2, 3, 4]" 2
      stub_far stub_far_tb stub_cfs example_model]
  by simp

text \<open>
  Claim C3.  When the preconditions hold, \<open>offset_hint + len(target) \<le> len(truth)\<close> and
  \<open>target\<close> is \<open>truth[offset_hint .. offset_hint + len(target))\<close>, the result is 0.
\<close>

theorem identical_returns_zero:
  assumes "length target = length target_qualities"
    and "length truth = length truth_gap_open_penalties"
    and "offset_hint < max (length truth) (length target)"
    and "offset_hint + length target \<le> length truth"
    and "target = take (length target) (drop offset_hint truth)"
  shows "compute_log_conditional_probability far far_tb cfs truth target target_qualities
           truth_gap_open_penalties offset_hint model = Inr 0"
proof -
  have "\<forall>j<length target. target ! j = drop offset_hint truth ! j"
    using assms(5) by (metis nth_take)
  then have "mismatch target (drop offset_hint truth) = length target"
    using assms(4) by (intro mismatch_full) auto
  then show ?thesis
    using assms(1-4) by (simp add: compute_log_conditional_probability_def Let_def)
qed

theorem identical_returns_zero_witness:
  "compute_log_conditional_probability stub_far stub_far_tb stub_cfs
     ''ACGTTACG'' ''CGTT'' [10, 20, 30, 40] [1, 2, 3, 4, 5, 6, 7, 8] 1 example_model = Inr 0"
  using identical_returns_zero[of "''CGTT''" "[10, 20, 30, 40]" "''ACGTTACG''"
      "[1, 2, 3, 4, 5, 6, 7, 8]" 1 stub_far stub_far_tb stub_cfs example_model]
  by simp

text \<open>
  Claim C9.  With at least two mismatches the result is \<open>align\<close>'s, and \<open>align\<close> returns the
  sentinel when \<open>offset_hint + truth_alignment_size > truth.size()\<close>, where
  \<open>truth_alignment_size\<close> is \<open>static_cast<int>(target.size() + 15)\<close>.  As stated (for every
  input) the claim fails where that cast does not keep the value: for the read
  \<open>long_target\<close>, \<open>target.size() + 15\<close> is \<open>2^31\<close>, the cast gives \<open>-2^31\<close>, the sum with
  the offset \<open>2^31\<close> is 0 in \<open>std::size_t\<close>, and the guard does not fire although
  \<open>offset_hint + len(target) + 15 > len(truth)\<close>.  What \<open>align\<close> returns then is a
  multiple of \<open>-ln_10_div_10\<close> by an integer score, not the sentinel.
\<close>

theorem full_path_band_counterexample:
  "length long_target = length long_target_qualities
   \<and> length long_truth = length long_truth_gap_open_penalties
   \<and> long_offset < max (length long_truth) (length long_target)
   \<and> long_offset + length long_target \<le> length long_truth
   \<and> long_target ! 0 \<noteq> long_truth ! (long_offset + 0)
   \<and> long_target ! 1 \<noteq> long_truth ! (long_offset + 1)
   \<and> long_offset + length long_target + 15 > length long_truth
   \<and> compute_log_conditional_probability stub_far stub_far_tb stub_cfs long_truth long_target
        long_target_qualities long_truth_gap_open_penalties long_offset example_model
      \<noteq> Inr lowest"
proof -
  have m: "(2::nat) ^ 31 - 15 = Suc (Suc (2 ^ 31 - 17))"
    by simp
  have n: "(2::nat) ^ 32 - 15 = 2 ^ 31 + Suc (Suc (2 ^ 31 - 17))"
    by simp
  have "compute_log_conditional_probability stub_far stub_far_tb stub_cfs long_truth
          long_target long_target_qualities long_truth_gap_open_penalties long_offset
          example_model =
        Inr (align stub_far stub_far_tb stub_cfs long_truth long_target
          long_target_qualities long_truth_gap_open_penalties long_offset example_model)"
    unfolding long_truth_def long_target_def long_target_qualities_def
      long_truth_gap_open_penalties_def long_offset_def m n
    by (rule long_reaches_align) simp
  moreover have "align stub_far stub_far_tb stub_cfs long_truth long_target
          long_target_qualities long_truth_gap_open_penalties long_offset example_model
        \<noteq> lowest"
    by (rule align_not_lowest)
      (simp add: static_cast_int_def to_size_t_def long_truth_def long_target_def
        long_offset_def)
  ultimately show ?thesis
    by (simp add: long_truth_def long_target_def long_target_qualities_def
        long_truth_gap_open_penalties_def long_offset_def)
qed

text \<open>
  Claim C9, amended.  For a read whose \<open>target.size() + 15\<close> fits an \<open>int\<close> (is below
  \<open>2^31\<close>) and a haplotype shorter than \<open>2^63\<close> (as every \<open>std::string\<close> is): when the
  preconditions hold,
  \<open>offset_hint + len(target) \<le> len(truth)\<close>, target and \<open>truth[offset_hint..]\<close> differ at two
  positions at least, and \<open>offset_hint + len(target) + 15 > len(truth)\<close>, the result is the
  sentinel.
\<close>

theorem full_path_band_sentinel:
  assumes "length target = length target_qualities"
    and "length truth = length truth_gap_open_penalties"
    and "offset_hint < max (length truth) (length target)"
    and "offset_hint + length target \<le> length truth"
    and "i < j" and "j < length target"
    and "target ! i \<noteq> truth ! (offset_hint + i)"
    and "target ! j \<noteq> truth ! (offset_hint + j)"
    and "offset_hint + length target + 15 > length truth"
    and "length target + 15 < 2 ^ 31"
    and "length truth < 2 ^ 63"
  shows "compute_log_conditional_probability far far_tb cfs truth target target_qualities
           truth_gap_open_penalties offset_hint model = Inr lowest"
  using two_mismatches_reach_align[OF assms(1-8)] align_guard_small[OF assms(10,11,4,9)]
  by simp

theorem full_path_band_sentinel_witness:
  "compute_log_conditional_probability stub_far stub_far_tb stub_cfs
     ''ACGTTACG'' ''CAAT'' [10, 20, 30, 40] [1, 2, 3, 4, 5, 6, 7, 8] 1 example_model =
   Inr lowest"
  using full_path_band_sentinel[of "''CAAT''" "[10, 20, 30, 40]" "''ACGTTACG''"
      "[1, 2, 3, 4, 5, 6, 7, 8]" 1 1 2 stub_far stub_far_tb stub_cfs example_model]
  by simp

text \<open>
  Claim C10.  Where the fast path decides (the offset check fires, or target and
  \<open>truth[offset_hint..]\<close> differ at one position at most), the result does not depend on
  the model argument.
\<close>

theorem fast_path_model_independent:
  assumes "offset_hint + length target > length truth \<or>
           (\<exists>k. \<forall>j<length target. j \<noteq> k \<longrightarrow> target ! j = truth ! (offset_hint + j))"
  shows "compute_log_conditional_probability far far_tb cfs truth target target_qualities
           truth_gap_open_penalties offset_hint model =
         compute_log_conditional_probability far far_tb cfs truth target target_qualities
           truth_gap_open_penalties offset_hint model'"
proof (cases "offset_hint + length target > length truth")
  case True
  then show ?thesis
    by (simp add: compute_log_conditional_probability_def)
next
  case False
  with assms obtain k where
    k: "\<forall>j<length target. j \<noteq> k \<longrightarrow> target ! j = truth ! (offset_hint + j)"
    by blast
  from False have le: "offset_hint + length target \<le> length truth"
    by simp
  from at_most_one_mismatch_fast[OF le k] show ?thesis
    by (auto simp: compute_log_conditional_probability_def Let_def)
qed

theorem fast_path_model_independent_witness:
  "compute_log_conditional_probability stub_far stub_far_tb stub_cfs
     ''ACGTTACG'' ''CGAT'' [10, 20, 30, 40] [1, 2, 3, 4, 5, 6, 7, 8] 1 example_model =
   compute_log_conditional_probability stub_far stub_far_tb stub_cfs
     ''ACGTTACG'' ''CGAT'' [10, 20, 30, 40] [1, 2, 3, 4, 5, 6, 7, 8] 1 other_model"
proof -
  have "\<exists>k. \<forall>j<length ''CGAT''. j \<noteq> k \<longrightarrow> ''CGAT'' ! j = ''ACGTTACG'' ! (1 + j)"
    by (rule exI[of _ 2]) (simp add: All_less_Suc)
  then show ?thesis
    by (intro fast_path_model_independent) simp
qed


section \<open>Properties of the genome walker\<close>

subsection \<open>Where the range of previous candidates ends\<close>

lemma overlap_range_end_all:
  "\<forall>c\<in>set items. \<not> is_after c r \<Longrightarrow> snd (overlap_range items r) = length items"
proof -
  assume "\<forall>c\<in>set items. \<not> is_after c r"
  then have tw: "takeWhile (\<lambda>m. \<not> is_after m r) items = items"
    by simp
  show ?thesis
    unfolding overlap_range_def Let_def tw by simp
qed

lemma overlap_range_end_find:
  "find (\<lambda>c. is_after c r) items = Some c \<Longrightarrow>
   snd (overlap_range items r) < length items \<and> items ! snd (overlap_range items r) = c"
  by (induction items) (auto simp: overlap_range_def Let_def split: if_splits)

text \<open>
  On one contig, a well-formed region that does not lie after another overlaps it or lies
  before it.
\<close>

lemma not_after_iff:
  assumes "get_contig_name c = get_contig_name r"
    and "get_begin c \<le> get_end c" and "get_begin r \<le> get_end r"
  shows "\<not> is_after c r \<longleftrightarrow> overlaps c r \<or> is_before c r"
  using assms
  by (auto simp: is_after_def is_before_def overlaps_def overlap_size_def is_empty_region_def
      min_def max_def split: if_splits)

text \<open>
  Whatever \<open>max_count_if_shared_with_first\<close> returns: when that count plus one is the
  smallest of the three bounds of line 133, \<open>num_excluded_candidates\<close> is \<open>-1\<close> in
  \<open>unsigned\<close> arithmetic, that is \<open>2^32 - 1\<close>.
\<close>

lemma cap_binds_underflow:
  assumes "m_extension_limit w = WithinReadLengthOfFirstIncluded"
    and "mc = (word_of_nat (max_count_if_shared_with_first reads candidates included_itr
                 (length candidates)) :: u32)"
    and "mc + 1 \<le> m_max_included w - num_indicators"
    and "mc + 1 \<le> word_of_nat (length candidates - included_itr)"
  shows "count_included w reads candidates included_itr num_indicators = (mc + 1, - 1)"
  using assms(1,3,4) unfolding count_included_def Let_def assms(2)[symmetric]
  by (simp add: min_absorb2)

text \<open>
  With \<open>SharedWithPreviousRegion\<close> the number of indicators is at most the number of
  candidates before \<open>included_itr\<close>, so \<open>prev(included_itr, num_indicators)\<close> stays in the
  candidate list.
\<close>

lemma shared_indicators_in_range:
  assumes "m_indicator_limit w = SharedWithPreviousRegion"
  shows "unat (count_indicators w reads candidates first_previous_itr included_itr)
           \<le> included_itr"
proof -
  let ?it = "find_first_shared reads candidates first_previous_itr included_itr
               (candidates ! included_itr)"
  have "unat (min (word_of_nat (included_itr - ?it) :: u32) (m_max_indicators w))
          \<le> unat (word_of_nat (included_itr - ?it) :: u32)"
    by (simp add: word_le_nat_alt[symmetric])
  also have "\<dots> \<le> included_itr - ?it"
    by (simp add: unat_of_nat)
  finally show ?thesis
    using assms by (simp add: count_indicators_def Let_def)
qed

lemma underflow_eval:
  "overlap_range underflow_candidates \<lparr>get_contig_name = ''1'', get_begin = 0, get_end = 0\<rparr>
     = (0, 0)"
  "count_indicators underflow_walker underflow_reads underflow_candidates 0 0 = 0"
  "max_count_if_shared_with_first underflow_reads underflow_candidates 0 3 = 1"
  "count_included underflow_walker underflow_reads underflow_candidates 0 0 = (2, 4294967295)"
  "length underflow_candidates = 3"
  "mappables_sorted underflow_candidates"
  "list_all (\<lambda>(sample, rs). mappables_sorted rs) underflow_reads"
  "m_extension_limit underflow_walker = WithinReadLengthOfFirstIncluded"
  "m_max_included underflow_walker = 5"
  by code_simp+

subsection \<open>The claims about the walker\<close>

text \<open>
  Claim C4.  When no candidate lies after the previous region, \<open>continue_walk\<close> returns
  the zero-length region at the end of the previous region, and so does \<open>start_walk\<close> for
  its previous region, the empty region at position 0 of the contig.  The result is a
  region, not an error.
\<close>

theorem exhaustion_returns_tail:
  assumes "\<forall>c\<in>set candidates. \<not> is_after c previous_region"
  shows "snd (continue_walk w previous_region reads candidates) =
           Inr \<lparr>get_contig_name = get_contig_name previous_region,
                get_begin = get_end previous_region, get_end = get_end previous_region\<rparr>
         \<and> (previous_region = \<lparr>get_contig_name = contig, get_begin = 0, get_end = 0\<rparr> \<longrightarrow>
            snd (start_walk w contig reads candidates) =
              Inr \<lparr>get_contig_name = contig, get_begin = 0, get_end = 0\<rparr>)"
  using overlap_range_end_all[OF assms]
  by (auto simp: continue_walk_def start_walk_def walk_def Let_def get_tail_def)

theorem exhaustion_returns_tail_witness:
  "snd (continue_walk underflow_walker (mk_region 100 1001) underflow_reads underflow_candidates)
     = Inr (mk_region 1001 1001)
   \<and> snd (start_walk underflow_walker ''1'' underflow_reads [mk_region 0 0, mk_region 0 0])
     = Inr (mk_region 0 0)"
proof -
  have a: "\<forall>c\<in>set underflow_candidates. \<not> is_after c (mk_region 100 1001)"
    by (simp add: underflow_candidates_def snp_def mk_region_def is_after_def overlaps_def
        overlap_size_def is_empty_region_def)
  have b: "\<forall>c\<in>set [mk_region 0 0, mk_region 0 0]. \<not> is_after c (mk_region 0 0)"
    by (simp add: mk_region_def is_after_def overlaps_def overlap_size_def is_empty_region_def)
  from exhaustion_returns_tail[OF a, of underflow_walker underflow_reads]
    exhaustion_returns_tail[OF b, of underflow_walker underflow_reads "''1''"]
  show ?thesis
    by (simp add: mk_region_def)
qed

text \<open>
  Claim C6.  With \<open>max_included = 0\<close> and no candidate after the previous region, the claim
  has the walker return the previous region itself.  The test of line 105 comes first:
  for the previous region \<open>[0, 10)\<close> and the one candidate at position 5 the result is the
  zero-length region \<open>[10, 10)\<close>, and the branch \<open>return previous_region\<close> is never reached.
\<close>

theorem single_step_counterexample:
  "m_max_included (GenomeWalker_ctor 1 0 SharedWithPreviousRegion ExtensionNoLimit NoExpansion) = 0
   \<and> \<not> is_after (snp 5) (mk_region 0 10)
   \<and> snd (continue_walk
            (GenomeWalker_ctor 1 0 SharedWithPreviousRegion ExtensionNoLimit NoExpansion)
            (mk_region 0 10) [] [snp 5])
       = Inr (mk_region 10 10)
   \<and> mk_region 10 10 \<noteq> mk_region 0 10"
  by (simp add: GenomeWalker_ctor_def continue_walk_def walk_def overlap_range_def Let_def
      get_tail_def snp_def mk_region_def is_after_def overlaps_def overlap_size_def
      is_empty_region_def)

text \<open>
  Claim C6, amended.  For a walker constructed with \<open>max_included = 0\<close>: when a candidate
  lies after the previous region, the result is the region from the end of the previous
  region to the begin of the first such candidate; when none does, the result is the
  zero-length region at the end of the previous region.
\<close>

theorem single_step_mode:
  "snd (continue_walk (GenomeWalker_ctor max_indicators 0 il el xl) previous_region reads
          candidates) =
   (case find (\<lambda>c. is_after c previous_region) candidates of
      Some c \<Rightarrow> Inr \<lparr>get_contig_name = get_contig_name previous_region,
                    get_begin = get_end previous_region, get_end = get_begin c\<rparr>
    | None \<Rightarrow> Inr \<lparr>get_contig_name = get_contig_name previous_region,
                  get_begin = get_end previous_region, get_end = get_end previous_region\<rparr>)"
proof (cases "find (\<lambda>c. is_after c previous_region) candidates")
  case None
  then have "snd (overlap_range candidates previous_region) = length candidates"
    by (intro overlap_range_end_all) (auto simp: find_None_iff)
  with None show ?thesis
    by (simp add: continue_walk_def walk_def Let_def get_tail_def)
next
  case (Some c)
  from overlap_range_end_find[OF Some] Some show ?thesis
    by (simp add: continue_walk_def walk_def Let_def get_intervening_def GenomeWalker_ctor_def)
qed

theorem single_step_mode_witness:
  "snd (continue_walk (GenomeWalker_ctor 1 0 SharedWithPreviousRegion ExtensionNoLimit NoExpansion)
          (mk_region 0 10) [] [snp 5, snp 100, snp 150]) = Inr (mk_region 10 100)"
  using single_step_mode[of 1 SharedWithPreviousRegion ExtensionNoLimit NoExpansion
      "mk_region 0 10" "[]" "[snp 5, snp 100, snp 150]"]
  by (simp add: snp_def mk_region_def is_after_def overlaps_def overlap_size_def
      is_empty_region_def)

text \<open>
  Claim C7.  An input on which \<open>max_candidates_within_read_length - num_included\<close>
  underflows.  For \<open>underflow_candidates\<close> (sorted), \<open>underflow_reads\<close> (sorted) and
  \<open>underflow_walker\<close>, started at the beginning of the contig: one later candidate shares
  a read with the first, so \<open>max_candidates_within_read_length\<close> is 1; \<open>num_included\<close> is
  \<open>min {5, 3, 1 + 1} = 2\<close>; \<open>num_excluded_candidates\<close> is \<open>1 - 2\<close>, which is \<open>2^32 - 1\<close>; the
  loop's first test decrements \<open>num_included\<close> to 1, which is positive, and calls
  \<open>is_optimal_to_extend\<close> with the budget \<open>(2 - 1) + (2^32 - 1)\<close>.
\<close>

theorem excluded_count_underflows:
  "mappables_sorted underflow_candidates
   \<and> list_all (\<lambda>(sample, rs). mappables_sorted rs) underflow_reads
   \<and> m_extension_limit underflow_walker = WithinReadLengthOfFirstIncluded
   \<and> m_max_included underflow_walker = 5
   \<and> overlap_range underflow_candidates \<lparr>get_contig_name = ''1'', get_begin = 0, get_end = 0\<rparr>
       = (0, 0)
   \<and> count_indicators underflow_walker underflow_reads underflow_candidates 0 0 = 0
   \<and> max_count_if_shared_with_first underflow_reads underflow_candidates 0
        (length underflow_candidates) = 1
   \<and> count_included underflow_walker underflow_reads underflow_candidates 0 0
       = (2, 2 ^ 32 - 1)
   \<and> extend_included underflow_candidates underflow_reads 0 2 (length underflow_candidates)
        (2 ^ 32 - 1) 2 0 =
       (if is_optimal_to_extend underflow_candidates 0 1 2 (length underflow_candidates)
             underflow_reads ((2 - 1) + (2 ^ 32 - 1))
        then extend_included underflow_candidates underflow_reads 0 2
               (length underflow_candidates) (2 ^ 32 - 1) (2 - 1) 1
        else 0)"
  unfolding underflow_eval
  by (subst extend_included.simps) (simp add: underflow_eval)

text \<open>
  Hence there is an input (sorted candidates and reads, extension limit
  \<open>WithinReadLengthOfFirstIncluded\<close>) on which \<open>walk\<close> reaches line 134 with
  \<open>max_candidates_within_read_length < num_included\<close>, \<open>num_excluded_candidates\<close> wraps to a
  value of at least \<open>2^31\<close>, and the loop's first test passes it on.
\<close>

theorem excluded_count_underflows_witness:
  "\<exists>w previous_region reads candidates.
     mappables_sorted candidates \<and> list_all (\<lambda>(sample, rs). mappables_sorted rs) reads \<and>
     m_extension_limit w = WithinReadLengthOfFirstIncluded \<and>
     (let previous_candidates = overlap_range candidates previous_region;
          included_itr = snd previous_candidates;
          num_indicators =
            count_indicators w reads candidates (fst previous_candidates) included_itr;
          max_candidates_within_read_length =
            max_count_if_shared_with_first reads candidates included_itr (length candidates);
          counts = count_included w reads candidates included_itr num_indicators;
          num_included = fst counts;
          num_excluded_candidates = snd counts
      in included_itr \<noteq> length candidates \<and> m_max_included w \<noteq> 0 \<and>
         unat num_indicators \<le> included_itr \<and>
         max_candidates_within_read_length < unat num_included \<and>
         unat num_excluded_candidates =
           2 ^ 32 + max_candidates_within_read_length - unat num_included \<and>
         2 ^ 31 \<le> unat num_excluded_candidates \<and>
         0 < num_included - 1)"
proof (intro exI[of _ underflow_walker]
    exI[of _ "\<lparr>get_contig_name = ''1'', get_begin = 0, get_end = 0\<rparr>"]
    exI[of _ underflow_reads] exI[of _ underflow_candidates])
  from excluded_count_underflows
  show "mappables_sorted underflow_candidates \<and>
    list_all (\<lambda>(sample, rs). mappables_sorted rs) underflow_reads \<and>
    m_extension_limit underflow_walker = WithinReadLengthOfFirstIncluded \<and>
    (let previous_candidates =
           overlap_range underflow_candidates
             \<lparr>get_contig_name = ''1'', get_begin = 0, get_end = 0\<rparr>;
         included_itr = snd previous_candidates;
         num_indicators =
           count_indicators underflow_walker underflow_reads underflow_candidates
             (fst previous_candidates) included_itr;
         max_candidates_within_read_length =
           max_count_if_shared_with_first underflow_reads underflow_candidates included_itr
             (length underflow_candidates);
         counts = count_included underflow_walker underflow_reads underflow_candidates
                    included_itr num_indicators;
         num_included = fst counts;
         num_excluded_candidates = snd counts
     in included_itr \<noteq> length underflow_candidates \<and> m_max_included underflow_walker \<noteq> 0 \<and>
        unat num_indicators \<le> included_itr \<and>
        max_candidates_within_read_length < unat num_included \<and>
        unat num_excluded_candidates =
          2 ^ 32 + max_candidates_within_read_length - unat num_included \<and>
        2 ^ 31 \<le> unat num_excluded_candidates \<and>
        0 < num_included - 1)"
    by (simp add: Let_def underflow_eval)
qed

text \<open>
  Claim C8.  The constructor stores \<open>max_included - 1\<close> as the indicator bound when
  \<open>0 < max_included \<le> max_indicators\<close> and the given \<open>max_indicators\<close> otherwise; it stores
  the other four arguments unchanged; \<open>start_walk\<close> and \<open>continue_walk\<close> leave the walker as
  it was.
\<close>

theorem ctor_fields:
  "m_max_indicators (GenomeWalker_ctor max_indicators max_included il el xl) =
     (if 0 < max_included \<and> max_included \<le> max_indicators then max_included - 1
      else max_indicators)
   \<and> m_max_included (GenomeWalker_ctor max_indicators max_included il el xl) = max_included
   \<and> m_indicator_limit (GenomeWalker_ctor max_indicators max_included il el xl) = il
   \<and> m_extension_limit (GenomeWalker_ctor max_indicators max_included il el xl) = el
   \<and> m_expansion_limit (GenomeWalker_ctor max_indicators max_included il el xl) = xl
   \<and> fst (start_walk w contig reads candidates) = w
   \<and> fst (continue_walk w previous_region reads candidates) = w"
  by (simp add: GenomeWalker_ctor_def start_walk_def continue_walk_def)

text \<open>
  Claim C5.  The walk does not reach a zero-length region from every configuration.
  With \<open>IndicatorLimit::NoLimit\<close> the number of indicators is \<open>max_indicators_\<close>, whatever the
  number of previous candidates; at the start of a contig there is none, and
  \<open>prev(included_itr, num_indicators)\<close> leaves the candidate list: the first call has no
  region to return.  (The branch for \<open>SharedWithPreviousRegion\<close> bounds the number by the
  distance to \<open>included_itr\<close>.)
\<close>

theorem unbounded_indicators_leave_range:
  "snd (start_walk unbounded_walker ''1'' underflow_reads underflow_candidates)
     = Inl IteratorOutOfRange"
  by (simp add: unbounded_walker_def GenomeWalker_ctor_def start_walk_def walk_def
      overlap_range_def Let_def count_indicators_def underflow_candidates_def snp_def
      is_after_def overlaps_def overlap_size_def is_empty_region_def)

end
